theory Spec2Isabelle
  imports Main
begin

section \<open>The topology builder of desctopo.py\<close>

text \<open>
  The module builds a graph of mutable frame objects (interfaces, devices, networks) that
  refer to one another, and keeps name registries in module-level dictionaries. Objects are
  modelled in a store, one per class, addressed by references; the module-level names are
  fields of the same state record. A function of the source becomes a function from the
  state to a result and the state it leaves behind; a raised exception is the result
  \<open>Inl e\<close>, and the state beside it is the one the exception leaves, since Python keeps
  every mutation made before the raise.
\<close>

subsection \<open>Exceptions, names that may be unbound, dictionaries\<close>

text \<open>
  \<open>UnboundLocalError\<close>, \<open>TypeError\<close> and \<open>KeyError\<close> are the exceptions the
  modelled statements raise. \<open>DuplicateNameError\<close> is the error the specification names
  for the registry; no statement of the source raises it.
\<close>

datatype error = UnboundLocalError | TypeError | KeyError | DuplicateNameError

type_synonym ref = nat

text \<open>
  A name assigned anywhere in a function body is local to that function. Reading it before
  an assignment has run raises \<open>UnboundLocalError\<close>; such a name is an option value here.
\<close>

definition read_local :: "'a option \<Rightarrow> error + 'a" where
  "read_local v = (case v of None \<Rightarrow> Inl UnboundLocalError | Some x \<Rightarrow> Inr x)"

text \<open>\<open>d[k]\<close> on a dictionary.\<close>

definition subscript :: "('k \<rightharpoonup> 'v) \<Rightarrow> 'k \<Rightarrow> error + 'v" where
  "subscript d k = (case d k of None \<Rightarrow> Inl KeyError | Some v \<Rightarrow> Inr v)"

text \<open>\<open>str(n)\<close> for an integer, as \<open>format\<close> prints it.\<close>

fun str_nat :: "nat \<Rightarrow> string" where
  "str_nat n =
     (if n < 10 then [char_of (48 + n)]
      else str_nat (n div 10) @ [char_of (48 + n mod 10)])"

declare str_nat.simps [simp del]

definition str_int :: "int \<Rightarrow> string" where
  "str_int i = (if i < 0 then CHR ''-'' # str_nat (nat (- i)) else str_nat (nat i))"

subsection \<open>Frames\<close>

text \<open>
  \<open>IntrfcFrameClass\<close>: \<open>Cable\<close> is a reference to the peer frame or \<open>None\<close>,
  \<open>Carry\<close> and \<open>Wireless\<close> are lists of references. The fields of the three classes
  carry a prefix (\<open>i_\<close>, \<open>d_\<close>, \<open>n_\<close>), since the classes share field names.
\<close>

record IntrfcFrame =
  i_Name :: string
  i_Groups :: "string list"
  i_DevType :: string
  i_MediaType :: string
  i_Device :: string
  i_Cable :: "ref option"
  i_Carry :: "ref list"
  i_Wireless :: "ref list"
  i_Faces :: string

text \<open>
  \<open>EndptFrameClass\<close>, \<open>RouterFrameClass\<close> and \<open>SwitchFrameClass\<close> have the same
  fields (\<open>Cores\<close> is set on endpoints only); \<open>d_class\<close> is the object's class.
\<close>

datatype devclass = EndptFrameClass | RouterFrameClass | SwitchFrameClass

record DevFrame =
  d_class :: devclass
  d_Name :: string
  d_Groups :: "string list"
  d_Model :: string
  d_Cores :: int
  d_Interfaces :: "ref list"

record NetworkFrame =
  n_Name :: string
  n_Groups :: "string list"
  n_NetScale :: string
  n_MediaType :: string
  n_Routers :: "ref list"
  n_Endpts :: "ref list"
  n_Switches :: "ref list"

text \<open>
  The state: the three stores, the next unused reference, and the module-level names
  (the four counters, the four registries and \<open>devConnected\<close>).
\<close>

record state =
  intrfcs :: "ref \<Rightarrow> IntrfcFrame"
  devs :: "ref \<Rightarrow> DevFrame"
  nets :: "ref \<Rightarrow> NetworkFrame"
  next_ref :: ref
  numberOfIntrfcs :: int
  numberOfRouters :: int
  numberOfSwitches :: int
  numberOfEndpts :: int
  objTypeByName :: "string \<rightharpoonup> string"
  devByName :: "string \<rightharpoonup> ref"
  netByName :: "string \<rightharpoonup> ref"
  rtrByName :: "string \<rightharpoonup> ref"
  devConnected :: "string \<rightharpoonup> string list"

text \<open>Field updates of one object of a store.\<close>

definition upd_intrfc :: "ref \<Rightarrow> (IntrfcFrame \<Rightarrow> IntrfcFrame) \<Rightarrow> state \<Rightarrow> state" where
  "upd_intrfc i f s = s\<lparr>intrfcs := (intrfcs s)(i := f (intrfcs s i))\<rparr>"

definition upd_dev :: "ref \<Rightarrow> (DevFrame \<Rightarrow> DevFrame) \<Rightarrow> state \<Rightarrow> state" where
  "upd_dev d f s = s\<lparr>devs := (devs s)(d := f (devs s d))\<rparr>"

definition upd_net :: "ref \<Rightarrow> (NetworkFrame \<Rightarrow> NetworkFrame) \<Rightarrow> state \<Rightarrow> state" where
  "upd_net n f s = s\<lparr>nets := (nets s)(n := f (nets s n))\<rparr>"

subsection \<open>Presence tests and name generation\<close>

text \<open>
  \<open>endptPresent\<close>, \<open>routerPresent\<close>, \<open>switchPresent\<close>: the loop sets the flag
  when some frame of the list has the name of the frame sought.
\<close>

definition endptPresent :: "ref list \<Rightarrow> ref \<Rightarrow> state \<Rightarrow> bool" where
  "endptPresent endptList endpt s =
     list_ex (\<lambda>endptInList. d_Name (devs s endptInList) = d_Name (devs s endpt)) endptList"

definition routerPresent :: "ref list \<Rightarrow> ref \<Rightarrow> state \<Rightarrow> bool" where
  "routerPresent rtrList rtr s =
     list_ex (\<lambda>rtrInList. d_Name (devs s rtrInList) = d_Name (devs s rtr)) rtrList"

definition switchPresent :: "ref list \<Rightarrow> ref \<Rightarrow> state \<Rightarrow> bool" where
  "switchPresent swtchList swtch s =
     list_ex (\<lambda>swtchInList. d_Name (devs s swtchInList) = d_Name (devs s swtch)) swtchList"

text \<open>
  The default names are format strings filled with an argument and a module-level
  counter, which these functions only read: \<open>intrfc@\<close>, the device, \<open>[.\<close>, the
  counter, \<open>]\<close> for an interface; the type, \<open>-endpt.(\<close>, the counter, \<open>)\<close> for an
  endpoint; \<open>rtr.[\<close>, the counter, \<open>]\<close> for a router; \<open>switch(\<close>, the name,
  \<open>).\<close>, the counter for a switch.
\<close>

definition DefaultIntrfcName :: "string \<Rightarrow> state \<Rightarrow> string" where
  "DefaultIntrfcName device s =
     ''intrfc@'' @ device @ ''[.'' @ str_int (numberOfIntrfcs s) @ '']''"

definition DefaultEndptName :: "string \<Rightarrow> state \<Rightarrow> string" where
  "DefaultEndptName etype s = etype @ ''-endpt.('' @ str_int (numberOfEndpts s) @ '')''"

definition DefaultRouterName :: "state \<Rightarrow> string" where
  "DefaultRouterName s = ''rtr.['' @ str_int (numberOfRouters s) @ '']''"

definition DefaultSwitchName :: "string \<Rightarrow> state \<Rightarrow> string" where
  "DefaultSwitchName name s = ''switch('' @ name @ '').'' @ str_int (numberOfSwitches s)"

subsection \<open>The NetDevice methods\<close>

text \<open>
  \<open>DevName\<close> and \<open>DevID\<close> return \<open>self.Name\<close>, \<open>DevType\<close> the string of the
  class, \<open>DevInterfaces\<close> the list \<open>self.Interfaces\<close>.
\<close>

definition DevName :: "ref \<Rightarrow> state \<Rightarrow> string" where
  "DevName dev s = d_Name (devs s dev)"

definition DevID :: "ref \<Rightarrow> state \<Rightarrow> string" where
  "DevID dev s = d_Name (devs s dev)"

definition DevType :: "ref \<Rightarrow> state \<Rightarrow> string" where
  "DevType dev s =
     (case d_class (devs s dev) of
        EndptFrameClass \<Rightarrow> ''Endpt''
      | RouterFrameClass \<Rightarrow> ''Router''
      | SwitchFrameClass \<Rightarrow> ''Switch'')"

definition DevInterfaces :: "ref \<Rightarrow> state \<Rightarrow> ref list" where
  "DevInterfaces dev s = d_Interfaces (devs s dev)"

text \<open>
  \<open>RouterFrameClass.AddIntrfc\<close>: an interface that is already attached (the same object,
  or one of the same name) is reported by the returned string; otherwise the interface
  is stamped with the router's type and name and appended.
\<close>

definition Router_AddIntrfc :: "ref \<Rightarrow> ref \<Rightarrow> state \<Rightarrow> string option \<times> state" where
  "Router_AddIntrfc self intrfc s =
     (if list_ex (\<lambda>ih. ih = intrfc \<or> i_Name (intrfcs s ih) = i_Name (intrfcs s intrfc))
           (d_Interfaces (devs s self))
      then (Some (''attempt to re-add interface '' @ i_Name (intrfcs s intrfc) @
                  '' to router '' @ d_Name (devs s self)), s)
      else (None,
            upd_dev self (\<lambda>d. d\<lparr>d_Interfaces := d_Interfaces d @ [intrfc]\<rparr>)
              (upd_intrfc intrfc
                 (\<lambda>i. i\<lparr>i_DevType := ''Router'', i_Device := d_Name (devs s self)\<rparr>) s)))"

text \<open>
  \<open>DevAddIntrfc\<close>: \<open>RouterFrameClass\<close> defines it as \<open>AddIntrfc\<close>. The endpoint and
  switch classes do not define it, so the call reaches \<open>NetDevice.DevAddIntrfc\<close>, whose
  body is \<open>pass\<close>.
\<close>

definition DevAddIntrfc :: "ref \<Rightarrow> ref \<Rightarrow> state \<Rightarrow> string option \<times> state" where
  "DevAddIntrfc dev intrfc s =
     (case d_class (devs s dev) of
        RouterFrameClass \<Rightarrow> Router_AddIntrfc dev intrfc s
      | EndptFrameClass \<Rightarrow> (None, s)
      | SwitchFrameClass \<Rightarrow> (None, s))"

subsection \<open>CreateIntrfc\<close>

text \<open>
  The function has no \<open>global\<close> declaration, so \<open>numberOfIntrfcs\<close>, \<open>rtr\<close> and
  \<open>net\<close> are local names. \<open>numberOfIntrfcs += 1\<close> reads the local before anything has
  bound it. \<open>rtr\<close> and \<open>net\<close> are bound in the branch \<open>devType == "Router"\<close> only,
  while the duplicate check that reads them stands after that branch, at the level of the
  function body.

  \<open>CreateIntrfc_from\<close> is the body as a function of the binding of the local
  \<open>numberOfIntrfcs\<close> on entry; \<open>CreateIntrfc\<close> is the function as it is called: the
  local is unbound. The new frame enters the store when it is returned.
\<close>

definition CreateIntrfc_from ::
  "int option \<Rightarrow> string \<Rightarrow> string \<Rightarrow> string \<Rightarrow> string \<Rightarrow> string \<Rightarrow> state \<Rightarrow> (error + ref) \<times> state" where
  "CreateIntrfc_from local_numberOfIntrfcs device name devType mediaType faces s =
     (case read_local local_numberOfIntrfcs of
        Inl e \<Rightarrow> (Inl e, s)
      | Inr n \<Rightarrow>
         (let name' = (if length name = 0 then DefaultIntrfcName device s else name);
              intrfc = \<lparr>i_Name = name', i_Groups = [], i_DevType = devType,
                        i_MediaType = mediaType, i_Device = device, i_Cable = None,
                        i_Carry = [], i_Wireless = [], i_Faces = faces\<rparr>;
              bound = (if devType = ''Router''
                       then (case subscript (devByName s) device of
                               Inl e \<Rightarrow> Inl e
                             | Inr rtr \<Rightarrow>
                                (case subscript (netByName s) faces of
                                   Inl e \<Rightarrow> Inl e
                                 | Inr net \<Rightarrow> Inr (Some (rtr, net))))
                       else Inr None)
          in case bound of
               Inl e \<Rightarrow> (Inl e, s)
             | Inr rtr_net \<Rightarrow>
                (case read_local rtr_net of
                   Inl e \<Rightarrow> (Inl e, s)
                 | Inr (rtr, net) \<Rightarrow>
                    (let duplicated =
                           list_ex (\<lambda>storedRouter.
                               d_Name (devs s rtr) = d_Name (devs s storedRouter))
                             (n_Routers (nets s net));
                         s1 = (if duplicated then s
                               else upd_net net (\<lambda>n. n\<lparr>n_Routers := n_Routers n @ [rtr]\<rparr>) s);
                         r = next_ref s1
                     in (Inr r, s1\<lparr>intrfcs := (intrfcs s1)(r := intrfc),
                                   next_ref := Suc r\<rparr>)))))"

definition CreateIntrfc ::
  "string \<Rightarrow> string \<Rightarrow> string \<Rightarrow> string \<Rightarrow> string \<Rightarrow> state \<Rightarrow> (error + ref) \<times> state" where
  "CreateIntrfc device name devType mediaType faces s =
     CreateIntrfc_from None device name devType mediaType faces s"

subsection \<open>NetworkFrameClass: FacedBy, IncludeDev, AddRouter, AddSwitch\<close>

definition FacedBy :: "ref \<Rightarrow> ref \<Rightarrow> state \<Rightarrow> bool" where
  "FacedBy self dev s =
     list_ex (\<lambda>intrfc. i_Faces (intrfcs s intrfc) = n_Name (nets s self))
       (DevInterfaces dev s)"

text \<open>
  \<open>IncludeDev\<close> returns the error string \<open>returnError\<close>, or \<open>None\<close>. The media check
  comes first and nothing else runs when it fails. Otherwise an interface is created when
  \<open>chkIntrfc\<close> is set and the device does not face the network, and the \<open>match\<close> on
  the device type appends the interface to the device and the device to the list of its
  kind. The switch case calls \<open>switchPresent(swtch)\<close> with one argument where the
  function takes two, which raises \<open>TypeError\<close>.
\<close>

definition MediaMismatchError :: string where
  "MediaMismatchError = ''including a wireless device in a wired network''"

definition IncludeDev ::
  "ref \<Rightarrow> ref \<Rightarrow> string \<Rightarrow> bool \<Rightarrow> state \<Rightarrow> (error + string option) \<times> state" where
  "IncludeDev self dev mediaType chkIntrfc s =
     (let devName = DevName dev s;
          devType = DevType dev s
      in if mediaType = ''wireless'' \<and> \<not> (n_MediaType (nets s self) = ''wireless'')
         then (Inr (Some MediaMismatchError), s)
         else
          (case (if chkIntrfc \<and> \<not> FacedBy self dev s
                 then (case CreateIntrfc devName (DefaultIntrfcName (DevName dev s) s)
                              devType mediaType (n_Name (nets s self)) s of
                         (Inl e, s1) \<Rightarrow> (Inl e, s1)
                       | (Inr i, s1) \<Rightarrow> (Inr (Some i), s1))
                 else (Inr None, s)) of
             (Inl e, s1) \<Rightarrow> (Inl e, s1)
           | (Inr intrfc, s1) \<Rightarrow>
              (let s2 = (case intrfc of
                           None \<Rightarrow> s1
                         | Some i \<Rightarrow>
                            upd_dev dev (\<lambda>d. d\<lparr>d_Interfaces := d_Interfaces d @ [i]\<rparr>) s1)
               in if devType = ''Endpt''
                  then (Inr None,
                        if \<not> endptPresent (n_Endpts (nets s2 self)) dev s2
                        then upd_net self (\<lambda>n. n\<lparr>n_Endpts := n_Endpts n @ [dev]\<rparr>) s2
                        else s2)
                  else if devType = ''Router''
                  then (Inr None,
                        if \<not> routerPresent (n_Routers (nets s2 self)) dev s2
                        then upd_net self (\<lambda>n. n\<lparr>n_Routers := n_Routers n @ [dev]\<rparr>) s2
                        else s2)
                  else if devType = ''Switch''
                  then (Inl TypeError, s2)
                  else (Inr None, s1))))"

text \<open>
  \<open>AddRouter\<close> and \<open>AddSwitch\<close> return an error string, or \<open>None\<close>. The string is
  the one the specification calls \<open>PrecedenceViolationError\<close>.
\<close>

definition PrecedenceViolationError :: "string \<Rightarrow> string \<Rightarrow> string \<Rightarrow> string" where
  "PrecedenceViolationError kind devName netName =
     ''attempting to add '' @ kind @ '' '' @ devName @ '' to network '' @ netName @
     '' without prior association of an interface''"

definition AddRouter :: "ref \<Rightarrow> ref \<Rightarrow> state \<Rightarrow> string option \<times> state" where
  "AddRouter self rtrf s =
     (let found = list_ex (\<lambda>rtr. d_Name (devs s rtr) = d_Name (devs s rtrf))
                    (n_Routers (nets s self))
      in if \<not> found
         then (if \<not> FacedBy self rtrf s
               then (Some (PrecedenceViolationError ''router'' (d_Name (devs s rtrf))
                             (n_Name (nets s self))), s)
               else (None, upd_net self (\<lambda>n. n\<lparr>n_Routers := n_Routers n @ [rtrf]\<rparr>) s))
         else (None, s))"

text \<open>
  In \<open>AddSwitch\<close> the loop variable has the name of the parameter:
  \<^verbatim>\<open>for swtch in self.Switches: if (swtch.Name == swtch.Name): found = True; break\<close>.
  The loop returns the flag and the object that \<open>swtch\<close> names afterwards: the parameter
  when the list is empty, a member of the list otherwise.
\<close>

fun AddSwitch_loop :: "state \<Rightarrow> ref list \<Rightarrow> ref \<Rightarrow> bool \<times> ref" where
  "AddSwitch_loop s [] swtch = (False, swtch)"
| "AddSwitch_loop s (x # xs) swtch =
     (if d_Name (devs s x) = d_Name (devs s x) then (True, x)
      else AddSwitch_loop s xs x)"

definition AddSwitch :: "ref \<Rightarrow> ref \<Rightarrow> state \<Rightarrow> string option \<times> state" where
  "AddSwitch self swtch s =
     (case AddSwitch_loop s (n_Switches (nets s self)) swtch of
        (found, swtch') \<Rightarrow>
          if \<not> found
          then (if \<not> FacedBy self swtch' s
                then (Some (PrecedenceViolationError ''switch'' (d_Name (devs s swtch'))
                              (n_Name (nets s self))), s)
                else (None,
                      upd_net self (\<lambda>n. n\<lparr>n_Switches := n_Switches n @ [swtch']\<rparr>) s))
          else (None, s))"

subsection \<open>The connectivity index\<close>

definition isConnected :: "string \<Rightarrow> string \<Rightarrow> state \<Rightarrow> bool" where
  "isConnected id1 id2 s =
     (case devConnected s id1 of
        None \<Rightarrow> False
      | Some peers \<Rightarrow> list_ex (\<lambda>peerID. peerID = id2) peers)"

text \<open>
  \<^verbatim>\<open>if not present: devConnected[id1] = []\<close> followed by
  \<^verbatim>\<open>devConnected[id1].append(id2)\<close>.
\<close>

definition append_peer :: "string \<Rightarrow> string \<Rightarrow> (string \<rightharpoonup> string list) \<Rightarrow> (string \<rightharpoonup> string list)" where
  "append_peer id1 id2 dc =
     dc(id1 \<mapsto> (case dc id1 of None \<Rightarrow> [] | Some peers \<Rightarrow> peers) @ [id2])"

definition markConnected :: "string \<Rightarrow> string \<Rightarrow> state \<Rightarrow> state" where
  "markConnected id1 id2 s =
     (if isConnected id1 id2 s then s
      else s\<lparr>devConnected := append_peer id2 id1 (append_peer id1 id2 (devConnected s))\<rparr>)"

subsection \<open>ConnectDevs\<close>

text \<open>\<open>carryContained(intrfc1, intrfc2)\<close>: is \<open>intrfc1\<close> in the \<open>Carry\<close> list of \<open>intrfc2\<close>?\<close>

definition carryContained :: "ref \<Rightarrow> ref \<Rightarrow> state \<Rightarrow> bool" where
  "carryContained intrfc1 intrfc2 s =
     list_ex (\<lambda>intrfc. intrfc = intrfc1 \<or>
                 i_Name (intrfcs s intrfc) = i_Name (intrfcs s intrfc1))
       (i_Carry (intrfcs s intrfc2))"

text \<open>
  The two nested loops of the cable branch. The result is the state after the first
  pair that is cabled, where the function returns, or \<open>None\<close> when the loops run out.
\<close>

fun cable_inner :: "state \<Rightarrow> ref \<Rightarrow> ref list \<Rightarrow> state option" where
  "cable_inner s intrfc1 [] = None"
| "cable_inner s intrfc1 (intrfc2 # rest) =
     (if i_Cable (intrfcs s intrfc1) \<noteq> None \<and> i_Cable (intrfcs s intrfc1) \<noteq> Some intrfc2
      then cable_inner s intrfc1 rest
      else if i_Cable (intrfcs s intrfc2) = Some intrfc1 \<or> i_Cable (intrfcs s intrfc2) = None
      then Some (upd_intrfc intrfc2 (\<lambda>i. i\<lparr>i_Cable := Some intrfc1\<rparr>)
                  (upd_intrfc intrfc1 (\<lambda>i. i\<lparr>i_Cable := Some intrfc2\<rparr>) s))
      else cable_inner s intrfc1 rest)"

fun cable_outer :: "state \<Rightarrow> ref list \<Rightarrow> ref list \<Rightarrow> state option" where
  "cable_outer s [] intrfcs2 = None"
| "cable_outer s (intrfc1 # rest) intrfcs2 =
     (case cable_inner s intrfc1 intrfcs2 of
        Some s' \<Rightarrow> Some s'
      | None \<Rightarrow> cable_outer s rest intrfcs2)"

text \<open>The two nested loops of the carry branch, in the same way.\<close>

fun carry_inner :: "state \<Rightarrow> ref \<Rightarrow> ref list \<Rightarrow> state option" where
  "carry_inner s intrfc1 [] = None"
| "carry_inner s intrfc1 (intrfc2 # rest) =
     (if carryContained intrfc1 intrfc2 s \<and> \<not> carryContained intrfc2 intrfc1 s
      then Some (upd_intrfc intrfc2 (\<lambda>i. i\<lparr>i_Carry := i_Carry i @ [intrfc1]\<rparr>) s)
      else if carryContained intrfc2 intrfc1 s \<and> \<not> carryContained intrfc1 intrfc2 s
      then Some (upd_intrfc intrfc1 (\<lambda>i. i\<lparr>i_Carry := i_Carry i @ [intrfc2]\<rparr>) s)
      else carry_inner s intrfc1 rest)"

fun carry_outer :: "state \<Rightarrow> ref list \<Rightarrow> ref list \<Rightarrow> state option" where
  "carry_outer s [] intrfcs2 = None"
| "carry_outer s (intrfc1 # rest) intrfcs2 =
     (case carry_inner s intrfc1 intrfcs2 of
        Some s' \<Rightarrow> Some s'
      | None \<Rightarrow> carry_outer s rest intrfcs2)"

text \<open>
  The search for a free interface among the candidates, and the creation of one when
  there is none: \<open>CreateIntrfc\<close>, then \<open>DevAddIntrfc\<close> (its result is dropped).
\<close>

definition free_intrfc :: "ref \<Rightarrow> ref list \<Rightarrow> string \<Rightarrow> state \<Rightarrow> (error + ref) \<times> state" where
  "free_intrfc dev candidates faces s =
     (case find (\<lambda>intrfc. i_Faces (intrfcs s intrfc) = faces \<and>
                     i_Cable (intrfcs s intrfc) = None) candidates of
        Some free \<Rightarrow> (Inr free, s)
      | None \<Rightarrow>
         (case CreateIntrfc (DevName dev s) (DefaultIntrfcName (DevName dev s) s)
                 (DevType dev s) ''wired'' faces s of
            (Inl e, s1) \<Rightarrow> (Inl e, s1)
          | (Inr free, s1) \<Rightarrow> (Inr free, snd (DevAddIntrfc dev free s1))))"

text \<open>
  \<open>ConnectDevs_link\<close> is the function from the lookup of the network on (all that follows
  \<open>markConnected\<close>); \<open>ConnectDevs\<close> is the whole function. The values that
  \<open>IncludeDev\<close> returns are dropped, as in the source; what it raises is raised.
\<close>

definition ConnectDevs_link :: "ref \<Rightarrow> ref \<Rightarrow> bool \<Rightarrow> string \<Rightarrow> state \<Rightarrow> (error + unit) \<times> state" where
  "ConnectDevs_link dev1 dev2 cable faces s =
     (case subscript (netByName s) faces of
        Inl e \<Rightarrow> (Inl e, s)
      | Inr net \<Rightarrow>
     (case IncludeDev net dev1 ''wired'' True s of
        (Inl e, s1) \<Rightarrow> (Inl e, s1)
      | (Inr _, s1) \<Rightarrow>
     (case IncludeDev net dev2 ''wired'' True s1 of
        (Inl e, s2) \<Rightarrow> (Inl e, s2)
      | (Inr _, s2) \<Rightarrow>
     (let intrfcs2 = filter (\<lambda>intrfc. i_Faces (intrfcs s2 intrfc) = faces \<and>
                                \<not> i_MediaType (intrfcs s2 intrfc) = ''wireless'')
                       (DevInterfaces dev2 s2);
          intrfcs1 = filter (\<lambda>intrfc. i_Faces (intrfcs s2 intrfc) = faces \<and>
                                \<not> i_MediaType (intrfcs s2 intrfc) = ''wireless'')
                       (DevInterfaces dev1 s2)
      in case (if cable then cable_outer s2 intrfcs1 intrfcs2
               else carry_outer s2 intrfcs1 intrfcs2) of
           Some s3 \<Rightarrow> (Inr (), s3)
         | None \<Rightarrow>
     (case free_intrfc dev1 intrfcs1 faces s2 of
        (Inl e, s3) \<Rightarrow> (Inl e, s3)
      | (Inr free1, s3) \<Rightarrow>
     (case free_intrfc dev2 intrfcs2 faces s3 of
        (Inl e, s4) \<Rightarrow> (Inl e, s4)
      | (Inr free2, s4) \<Rightarrow>
         (Inr (),
          if cable
          then upd_intrfc free2 (\<lambda>i. i\<lparr>i_Cable := Some free1\<rparr>)
                 (upd_intrfc free1 (\<lambda>i. i\<lparr>i_Cable := Some free2\<rparr>) s4)
          else upd_intrfc free2 (\<lambda>i. i\<lparr>i_Carry := i_Carry i @ [free1]\<rparr>)
                 (upd_intrfc free1 (\<lambda>i. i\<lparr>i_Carry := i_Carry i @ [free2]\<rparr>) s4))))))))"

definition ConnectDevs :: "ref \<Rightarrow> ref \<Rightarrow> bool \<Rightarrow> string \<Rightarrow> state \<Rightarrow> (error + unit) \<times> state" where
  "ConnectDevs dev1 dev2 cable faces s =
     (if isConnected (DevID dev1 s) (DevID dev2 s) s then (Inr (), s)
      else ConnectDevs_link dev1 dev2 cable faces
             (markConnected (DevID dev1 s) (DevID dev2 s) s))"

subsection \<open>NetworkFrameClass.AddGroup\<close>

text \<open>
  \<^verbatim>\<open>if (groupName in self.Groups): self.Groups.append(groupName)\<close>
\<close>

definition NetworkFrame_AddGroup :: "ref \<Rightarrow> string \<Rightarrow> state \<Rightarrow> state" where
  "NetworkFrame_AddGroup self groupName s =
     (if groupName \<in> set (n_Groups (nets s self))
      then upd_net self (\<lambda>n. n\<lparr>n_Groups := n_Groups n @ [groupName]\<rparr>) s
      else s)"

text \<open>\<open>NetworkFrameClass.__init__\<close>: the fields of a new network frame.\<close>

definition NetworkFrame_init :: NetworkFrame where
  "NetworkFrame_init =
     \<lparr>n_Name = [], n_Groups = [], n_NetScale = [], n_MediaType = [],
      n_Routers = [], n_Endpts = [], n_Switches = []\<rparr>"

subsection \<open>IntrfcFrameClass.Transform\<close>

text \<open>
  An element of a descriptor's list is a string or, as the code has it, the frame object
  that the loop appends.
\<close>

datatype pyval = Str string | FrameRef ref

record IntrfcDesc =
  ds_Name :: string
  ds_Groups :: "string list"
  ds_DevType :: string
  ds_MediaType :: string
  ds_Device :: string
  ds_Cable :: "string option"
  ds_Carry :: "pyval list"
  ds_Wireless :: "pyval list"
  ds_Faces :: string

text \<open>
  \<^verbatim>\<open>if (self.Cable != None): intrfcDesc.Cable = self.Cable.Name\<close>,
  \<^verbatim>\<open>for carry in self.Carry: intrfcDesc.Carry.append(carry)\<close>,
  \<^verbatim>\<open>for connection in self.Wireless: intrfcDesc.Wireless.append(connection)\<close>.
\<close>

definition IntrfcFrame_Transform :: "ref \<Rightarrow> state \<Rightarrow> IntrfcDesc" where
  "IntrfcFrame_Transform self s =
     (let f = intrfcs s self
      in \<lparr>ds_Name = i_Name f, ds_Groups = i_Groups f, ds_DevType = i_DevType f,
          ds_MediaType = i_MediaType f, ds_Device = i_Device f,
          ds_Cable = (case i_Cable f of
                        None \<Rightarrow> None
                      | Some c \<Rightarrow> Some (i_Name (intrfcs s c))),
          ds_Carry = map (\<lambda>carry. FrameRef carry) (i_Carry f),
          ds_Wireless = map (\<lambda>connection. FrameRef connection) (i_Wireless f),
          ds_Faces = i_Faces f\<rparr>)"

subsection \<open>TopoCfgFrameClass.Consolidate\<close>

text \<open>The dictionary \<open>TopoCfgFrame\<close> of a topology, with its five keys.\<close>

record TopoCfgFrame =
  t_Name :: string
  t_Endpts :: "ref list"
  t_Networks :: "ref list"
  t_Routers :: "ref list"
  t_Switches :: "ref list"

text \<open>
  \<open>addEndpt\<close>, \<open>addRouter\<close>, \<open>addSwitch\<close>: return when a stored frame is the same
  object or has the same name, append otherwise.
\<close>

definition stored :: "state \<Rightarrow> ref list \<Rightarrow> ref \<Rightarrow> bool" where
  "stored s frames dev =
     list_ex (\<lambda>storedDev. storedDev = dev \<or> d_Name (devs s storedDev) = d_Name (devs s dev))
       frames"

definition addEndpt :: "state \<Rightarrow> ref \<Rightarrow> TopoCfgFrame \<Rightarrow> TopoCfgFrame" where
  "addEndpt s endpt t =
     (if stored s (t_Endpts t) endpt then t else t\<lparr>t_Endpts := t_Endpts t @ [endpt]\<rparr>)"

definition addRouter :: "state \<Rightarrow> ref \<Rightarrow> TopoCfgFrame \<Rightarrow> TopoCfgFrame" where
  "addRouter s rtr t =
     (if stored s (t_Routers t) rtr then t else t\<lparr>t_Routers := t_Routers t @ [rtr]\<rparr>)"

definition addSwitch :: "state \<Rightarrow> ref \<Rightarrow> TopoCfgFrame \<Rightarrow> TopoCfgFrame" where
  "addSwitch s swtch t =
     (if stored s (t_Switches t) swtch then t else t\<lparr>t_Switches := t_Switches t @ [swtch]\<rparr>)"

text \<open>The body of the loop over the networks: routers, endpoints, switches, in this order.\<close>

definition gather :: "state \<Rightarrow> ref \<Rightarrow> TopoCfgFrame \<Rightarrow> TopoCfgFrame" where
  "gather s network t =
     fold (addSwitch s) (n_Switches (nets s network))
       (fold (addEndpt s) (n_Endpts (nets s network))
          (fold (addRouter s) (n_Routers (nets s network)) t))"

definition EmptyTopologyError :: string where
  "EmptyTopologyError = ''no networks given in TopoCfgFrame in Consolidate call''"

definition Consolidate :: "state \<Rightarrow> TopoCfgFrame \<Rightarrow> string option \<times> TopoCfgFrame" where
  "Consolidate s t =
     (if length (t_Networks t) = 0 then (Some EmptyTopologyError, t)
      else (None,
            fold (gather s) (t_Networks t)
              (t\<lparr>t_Endpts := [], t_Routers := [], t_Switches := []\<rparr>)))"

subsection \<open>The constructors\<close>

text \<open>
  The frame classes derive from the abstract base class \<open>NetDevice\<close>, whose five
  methods are abstract. Calling a class that leaves one of them undefined raises
  \<open>TypeError\<close>. The lists are the methods each class body defines. The methods of
  the preceding subsections are modelled on the objects of the store, however they were
  made.
\<close>

definition NetDevice_abstract :: "string list" where
  "NetDevice_abstract =
     [''DevName'', ''DevID'', ''DevType'', ''DevInterfaces'', ''DevAddIntrfc'']"

definition EndptFrameClass_defines :: "string list" where
  "EndptFrameClass_defines =
     [''__init__'', ''AddGroup'', ''SetEUD'', ''IsEUD'', ''SetHost'', ''IsHost'', ''SetSrvr'',
      ''IsSrver'', ''SetCores'', ''DevName'', ''DevID'', ''DevType'', ''DevModel'',
      ''DevInterfaces'', ''Transform'', ''AddIntrfc'']"

definition RouterFrameClass_defines :: "string list" where
  "RouterFrameClass_defines =
     [''__init__'', ''AddIntrfc'', ''DevAddIntrfc'', ''AddGroup'', ''Transform'', ''DevName'',
      ''DevID'', ''DevType'', ''DevModel'', ''DevInterfaces'']"

definition SwitchFrameClass_defines :: "string list" where
  "SwitchFrameClass_defines =
     [''__init__'', ''AddGroup'', ''AddIntrfc'', ''Transform'', ''DevName'', ''DevID'',
      ''DevType'', ''DevModel'', ''DevInterfaces'']"

definition NetworkFrameClass_defines :: "string list" where
  "NetworkFrameClass_defines =
     [''__init__'', ''FacedBy'', ''AddGroup'', ''DevNetworks'', ''IncludeDev'', ''AddRouter'',
      ''AddSwitch'', ''Transform'', ''DevName'', ''DevID'', ''DevType'', ''DevModel'',
      ''DevInterfaces'']"

definition instantiate :: "string list \<Rightarrow> error + unit" where
  "instantiate defines =
     (if list_all (\<lambda>m. m \<in> set defines) NetDevice_abstract then Inr () else Inl TypeError)"

text \<open>
  The device constructors have no \<open>global\<close> declaration either:
  \<^verbatim>\<open>numberOfEndpts = numberOfEndpts + 1\<close> reads a local name that nothing has bound, and
  so do \<open>CreateRouter\<close> and \<open>CreateSwitch\<close> with their counters. As for
  \<open>CreateIntrfc\<close>, the \<open>_from\<close> functions are the bodies as functions of the binding
  of the local counter on entry, and the constructors are the bodies with the counter
  unbound. The registration is two or three plain dictionary stores, with no test of
  what the dictionaries hold. \<open>CreateNetwork\<close> has no counter.
\<close>

definition CreateEndpt_from :: "int option \<Rightarrow> string \<Rightarrow> string \<Rightarrow> string \<Rightarrow> int \<Rightarrow> state \<Rightarrow> (error + ref) \<times> state" where
  "CreateEndpt_from numberOfEndpts_local name etype model cores s =
     (case instantiate EndptFrameClass_defines of
        Inl e \<Rightarrow> (Inl e, s)
      | Inr _ \<Rightarrow>
     (case read_local numberOfEndpts_local of
        Inl e \<Rightarrow> (Inl e, s)
      | Inr n \<Rightarrow>
         (let name' = (if length name = 0 then DefaultEndptName etype s else name);
              epf = next_ref s
          in (Inr epf,
              s\<lparr>devs := (devs s)(epf :=
                    \<lparr>d_class = EndptFrameClass, d_Name = name', d_Groups = [],
                     d_Model = model, d_Cores = cores, d_Interfaces = []\<rparr>),
                next_ref := Suc epf,
                objTypeByName := (objTypeByName s)(name' \<mapsto> ''Endpt''),
                devByName := (devByName s)(name' \<mapsto> epf)\<rparr>))))"

definition CreateRouter_from :: "int option \<Rightarrow> string \<Rightarrow> string \<Rightarrow> state \<Rightarrow> (error + ref) \<times> state" where
  "CreateRouter_from numberOfRouters_local name model s =
     (case instantiate RouterFrameClass_defines of
        Inl e \<Rightarrow> (Inl e, s)
      | Inr _ \<Rightarrow>
     (case read_local numberOfRouters_local of
        Inl e \<Rightarrow> (Inl e, s)
      | Inr n \<Rightarrow>
         (let name' = (if length name = 0 then DefaultRouterName s else name);
              rtr = next_ref s
          in (Inr rtr,
              s\<lparr>devs := (devs s)(rtr :=
                    \<lparr>d_class = RouterFrameClass, d_Name = name', d_Groups = [],
                     d_Model = model, d_Cores = 0, d_Interfaces = []\<rparr>),
                next_ref := Suc rtr,
                objTypeByName := (objTypeByName s)(name' \<mapsto> ''Router''),
                devByName := (devByName s)(name' \<mapsto> rtr),
                rtrByName := (rtrByName s)(name' \<mapsto> rtr)\<rparr>))))"

definition CreateSwitch_from :: "int option \<Rightarrow> string \<Rightarrow> string \<Rightarrow> state \<Rightarrow> (error + ref) \<times> state" where
  "CreateSwitch_from numberOfSwitches_local name model s =
     (case instantiate SwitchFrameClass_defines of
        Inl e \<Rightarrow> (Inl e, s)
      | Inr _ \<Rightarrow>
     (case read_local numberOfSwitches_local of
        Inl e \<Rightarrow> (Inl e, s)
      | Inr n \<Rightarrow>
         (let name' = (if length name = 0 then DefaultSwitchName ''switch'' s else name);
              sf = next_ref s
          in (Inr sf,
              s\<lparr>devs := (devs s)(sf :=
                    \<lparr>d_class = SwitchFrameClass, d_Name = name', d_Groups = [],
                     d_Model = model, d_Cores = 0, d_Interfaces = []\<rparr>),
                next_ref := Suc sf,
                objTypeByName := (objTypeByName s)(name' \<mapsto> ''Switch''),
                devByName := (devByName s)(name' \<mapsto> sf)\<rparr>))))"

definition CreateEndpt :: "string \<Rightarrow> string \<Rightarrow> string \<Rightarrow> int \<Rightarrow> state \<Rightarrow> (error + ref) \<times> state" where
  "CreateEndpt name etype model cores s = CreateEndpt_from None name etype model cores s"

definition CreateRouter :: "string \<Rightarrow> string \<Rightarrow> state \<Rightarrow> (error + ref) \<times> state" where
  "CreateRouter name model s = CreateRouter_from None name model s"

definition CreateSwitch :: "string \<Rightarrow> string \<Rightarrow> state \<Rightarrow> (error + ref) \<times> state" where
  "CreateSwitch name model s = CreateSwitch_from None name model s"

definition CreateNetwork :: "string \<Rightarrow> string \<Rightarrow> string \<Rightarrow> state \<Rightarrow> (error + ref) \<times> state" where
  "CreateNetwork name NetScale MediaType s =
     (case instantiate NetworkFrameClass_defines of
        Inl e \<Rightarrow> (Inl e, s)
      | Inr _ \<Rightarrow>
         (let nf = next_ref s
          in (Inr nf,
              s\<lparr>nets := (nets s)(nf :=
                    \<lparr>n_Name = name, n_Groups = [], n_NetScale = NetScale,
                     n_MediaType = MediaType, n_Routers = [], n_Endpts = [],
                     n_Switches = []\<rparr>),
                next_ref := Suc nf,
                objTypeByName := (objTypeByName s)(name \<mapsto> ''Network''),
                netByName := (netByName s)(name \<mapsto> nf)\<rparr>)))"

subsection \<open>The union of the membership lists, as the specification words it\<close>

text \<open>
  The union of a list of frames, deduplicated by name: each name is kept once, at its
  first occurrence.
\<close>

fun union_by_name :: "(ref \<Rightarrow> string) \<Rightarrow> ref list \<Rightarrow> ref list" where
  "union_by_name nm [] = []"
| "union_by_name nm (x # xs) = x # union_by_name nm (filter (\<lambda>y. nm y \<noteq> nm x) xs)"

subsection \<open>Frame condition used in the proofs\<close>

text \<open>Two states with the same connectivity index and the same device names.\<close>

definition same_ids :: "state \<Rightarrow> state \<Rightarrow> bool" where
  "same_ids s s' =
     (devConnected s' = devConnected s \<and> (\<forall>d. d_Name (devs s' d) = d_Name (devs s d)))"

subsection \<open>Example states\<close>

text \<open>The fields \<open>__init__\<close> gives an interface frame and a device frame.\<close>

definition IntrfcFrame_init :: IntrfcFrame where
  "IntrfcFrame_init =
     \<lparr>i_Name = [], i_Groups = [], i_DevType = [], i_MediaType = [], i_Device = [],
      i_Cable = None, i_Carry = [], i_Wireless = [], i_Faces = []\<rparr>"

definition DevFrame_init :: "devclass \<Rightarrow> DevFrame" where
  "DevFrame_init c =
     \<lparr>d_class = c, d_Name = [], d_Groups = [], d_Model = [], d_Cores = 0, d_Interfaces = []\<rparr>"

definition empty_state :: state where
  "empty_state =
     \<lparr>intrfcs = (\<lambda>_. IntrfcFrame_init), devs = (\<lambda>_. DevFrame_init EndptFrameClass),
      nets = (\<lambda>_. NetworkFrame_init), next_ref = 0,
      numberOfIntrfcs = 0, numberOfRouters = 0, numberOfSwitches = 0, numberOfEndpts = 0,
      objTypeByName = Map.empty, devByName = Map.empty, netByName = Map.empty,
      rtrByName = Map.empty, devConnected = Map.empty\<rparr>"

text \<open>
  \<open>ex_fresh\<close>: the endpoints \<open>h1\<close> and \<open>h2\<close> (devices 1 and 2), without interfaces,
  and the wired network \<open>netA\<close> (network 1), without members.
\<close>

definition ex_fresh :: state where
  "ex_fresh =
     empty_state
       \<lparr>devs := (devs empty_state)
           (1 := (DevFrame_init EndptFrameClass)\<lparr>d_Name := ''h1''\<rparr>,
            2 := (DevFrame_init EndptFrameClass)\<lparr>d_Name := ''h2''\<rparr>),
        nets := (nets empty_state)
           (1 := NetworkFrame_init\<lparr>n_Name := ''netA'', n_MediaType := ''wired''\<rparr>),
        next_ref := 3,
        objTypeByName :=
          [''h1'' \<mapsto> ''Endpt'', ''h2'' \<mapsto> ''Endpt'', ''netA'' \<mapsto> ''Network''],
        devByName := [''h1'' \<mapsto> 1, ''h2'' \<mapsto> 2],
        netByName := [''netA'' \<mapsto> 1]\<rparr>"

text \<open>
  \<open>ex_carry\<close>: as \<open>ex_fresh\<close>, and each endpoint has one wired interface facing
  \<open>netA\<close>: \<open>i1\<close> (interface 1) on \<open>h1\<close>, \<open>i2\<close> (interface 2) on \<open>h2\<close>. The
  \<open>Carry\<close> list of \<open>i2\<close> holds \<open>i1\<close>; the \<open>Carry\<close> list of \<open>i1\<close> is empty.
\<close>

definition ex_carry :: state where
  "ex_carry =
     ex_fresh
       \<lparr>intrfcs := (intrfcs ex_fresh)
           (1 := IntrfcFrame_init\<lparr>i_Name := ''i1'', i_DevType := ''Endpt'',
                   i_MediaType := ''wired'', i_Device := ''h1'', i_Faces := ''netA''\<rparr>,
            2 := IntrfcFrame_init\<lparr>i_Name := ''i2'', i_DevType := ''Endpt'',
                   i_MediaType := ''wired'', i_Device := ''h2'', i_Faces := ''netA'',
                   i_Carry := [1]\<rparr>),
        devs := (devs ex_fresh)
           (1 := (DevFrame_init EndptFrameClass)\<lparr>d_Name := ''h1'', d_Interfaces := [1]\<rparr>,
            2 := (DevFrame_init EndptFrameClass)\<lparr>d_Name := ''h2'', d_Interfaces := [2]\<rparr>)\<rparr>"

text \<open>
  \<open>ex_switch\<close>: the wired network \<open>netA\<close> (network 1) whose \<open>Switches\<close> list holds
  the switch \<open>s1\<close> (device 3); the switch \<open>s2\<close> (device 4) with the interface \<open>i4\<close>
  (interface 4) facing \<open>netA\<close>; the switch \<open>s3\<close> (device 5) without interfaces; the
  router \<open>r1\<close> (device 6) without interfaces.
\<close>

definition ex_switch :: state where
  "ex_switch =
     empty_state
       \<lparr>intrfcs := (intrfcs empty_state)
           (4 := IntrfcFrame_init\<lparr>i_Name := ''i4'', i_DevType := ''Switch'',
                   i_MediaType := ''wired'', i_Device := ''s2'', i_Faces := ''netA''\<rparr>),
        devs := (devs empty_state)
           (3 := (DevFrame_init SwitchFrameClass)\<lparr>d_Name := ''s1''\<rparr>,
            4 := (DevFrame_init SwitchFrameClass)\<lparr>d_Name := ''s2'', d_Interfaces := [4]\<rparr>,
            5 := (DevFrame_init SwitchFrameClass)\<lparr>d_Name := ''s3''\<rparr>,
            6 := (DevFrame_init RouterFrameClass)\<lparr>d_Name := ''r1''\<rparr>),
        nets := (nets empty_state)
           (1 := NetworkFrame_init\<lparr>n_Name := ''netA'', n_MediaType := ''wired'',
                   n_Switches := [3]\<rparr>),
        next_ref := 7,
        objTypeByName :=
          [''s1'' \<mapsto> ''Switch'', ''s2'' \<mapsto> ''Switch'', ''s3'' \<mapsto> ''Switch'',
           ''r1'' \<mapsto> ''Router'', ''netA'' \<mapsto> ''Network''],
        devByName := [''s1'' \<mapsto> 3, ''s2'' \<mapsto> 4, ''s3'' \<mapsto> 5, ''r1'' \<mapsto> 6],
        rtrByName := [''r1'' \<mapsto> 6],
        netByName := [''netA'' \<mapsto> 1]\<rparr>"

text \<open>
  \<open>ex_router\<close>: as \<open>ex_switch\<close>, with the router \<open>r2\<close> (device 7) that has the
  interface \<open>i7\<close> (interface 7) facing \<open>netA\<close>.
\<close>

definition ex_router :: state where
  "ex_router =
     ex_switch
       \<lparr>intrfcs := (intrfcs ex_switch)
           (7 := IntrfcFrame_init\<lparr>i_Name := ''i7'', i_DevType := ''Router'',
                   i_MediaType := ''wired'', i_Device := ''r2'', i_Faces := ''netA''\<rparr>),
        devs := (devs ex_switch)
           (7 := (DevFrame_init RouterFrameClass)\<lparr>d_Name := ''r2'', d_Interfaces := [7]\<rparr>),
        next_ref := 8\<rparr>"

text \<open>
  \<open>ex_topo\<close>: a topology over \<open>ex_nets\<close>, where two networks share the router
  \<open>r1\<close> (device 6) and the second also holds the endpoint \<open>h1\<close> (device 1) twice.
\<close>

definition ex_nets :: state where
  "ex_nets =
     ex_switch
       \<lparr>devs := (devs ex_switch)(1 := (DevFrame_init EndptFrameClass)\<lparr>d_Name := ''h1''\<rparr>),
        nets := (nets ex_switch)
           (1 := NetworkFrame_init\<lparr>n_Name := ''netA'', n_MediaType := ''wired'',
                   n_Routers := [6], n_Switches := [3]\<rparr>,
            2 := NetworkFrame_init\<lparr>n_Name := ''netB'', n_MediaType := ''wired'',
                   n_Routers := [6], n_Endpts := [1, 1], n_Switches := [4, 3]\<rparr>)\<rparr>"

definition ex_topo :: TopoCfgFrame where
  "ex_topo =
     \<lparr>t_Name = ''topo'', t_Endpts = [2], t_Networks = [1, 2], t_Routers = [],
      t_Switches = [5]\<rparr>"

definition ex_topo_empty :: TopoCfgFrame where
  "ex_topo_empty =
     \<lparr>t_Name = ''topo'', t_Endpts = [2], t_Networks = [], t_Routers = [6],
      t_Switches = [5]\<rparr>"

section \<open>Theorems\<close>

lemma AddGroup_absent: "groupName \<notin> set (n_Groups (nets s self)) \<Longrightarrow>
    NetworkFrame_AddGroup self groupName s = s"
  by (simp add: NetworkFrame_AddGroup_def)

lemma AddGroup_fold_empty:
  "n_Groups (nets s self) = [] \<Longrightarrow>
    n_Groups (nets (fold (NetworkFrame_AddGroup self) gs s) self) = []"
  by (induction gs arbitrary: s) (simp_all add: NetworkFrame_AddGroup_def)

text \<open>
  C10. A group name that is not in a network frame's \<open>Groups\<close> is not added by
  \<open>AddGroup\<close>: the call leaves the whole state as it was. So a network frame whose
  \<open>Groups\<close> is empty, as \<open>__init__\<close> leaves it, still has empty \<open>Groups\<close> after any
  sequence of \<open>AddGroup\<close> calls on it.
\<close>

theorem NetworkFrame_AddGroup_never_adds:
  "(groupName \<notin> set (n_Groups (nets s self)) \<longrightarrow>
      NetworkFrame_AddGroup self groupName s = s) \<and>
   n_Groups NetworkFrame_init = [] \<and>
   (n_Groups (nets s self) = [] \<longrightarrow>
      n_Groups (nets (fold (NetworkFrame_AddGroup self) gs s) self) = [])"
  by (simp add: AddGroup_absent AddGroup_fold_empty NetworkFrame_init_def)

theorem NetworkFrame_AddGroup_never_adds_witness:
  "''lan'' \<notin> set (n_Groups (nets ex_fresh 1)) \<and>
   NetworkFrame_AddGroup 1 ''lan'' ex_fresh = ex_fresh \<and>
   n_Groups (nets ex_fresh 1) = [] \<and>
   n_Groups (nets (fold (NetworkFrame_AddGroup 1) [''lan'', ''wan'', ''lan''] ex_fresh) 1) = []"
proof -
  have g: "n_Groups (nets ex_fresh 1) = []"
    by (simp add: ex_fresh_def empty_state_def NetworkFrame_init_def)
  then have a: "''lan'' \<notin> set (n_Groups (nets ex_fresh 1))"
    by simp
  show ?thesis
    using NetworkFrame_AddGroup_never_adds [of "''lan''" ex_fresh 1 "[''lan'', ''wan'', ''lan'']"] g a
    by blast
qed

subsection \<open>ConnectDevs: what the steps after markConnected leave alone\<close>

text \<open>
  Nothing after \<open>markConnected\<close> writes \<open>devConnected\<close> or a device's \<open>Name\<close>:
  interface creation, \<open>IncludeDev\<close>, the search loops and the final link only touch
  interface frames, the \<open>Interfaces\<close> lists and the membership lists.
\<close>

lemma same_ids_refl: "same_ids s s"
  by (simp add: same_ids_def)

lemma same_ids_trans: "same_ids s s1 \<Longrightarrow> same_ids s1 s2 \<Longrightarrow> same_ids s s2"
  by (simp add: same_ids_def)

lemma same_ids_upd_intrfc: "same_ids s (upd_intrfc i f s)"
  by (simp add: same_ids_def upd_intrfc_def)

lemma same_ids_upd_net: "same_ids s (upd_net n f s)"
  by (simp add: same_ids_def upd_net_def)

lemma same_ids_upd_dev:
  "(\<And>d. d_Name (f d) = d_Name d) \<Longrightarrow> same_ids s (upd_dev dev f s)"
  by (simp add: same_ids_def upd_dev_def)

lemma same_ids_CreateIntrfc_from:
  "same_ids s (snd (CreateIntrfc_from l device name devType mediaType faces s))"
  by (auto simp: CreateIntrfc_from_def Let_def read_local_def subscript_def same_ids_def upd_net_def
      split: sum.splits option.splits prod.splits)

lemma same_ids_CreateIntrfc:
  "same_ids s (snd (CreateIntrfc device name devType mediaType faces s))"
  by (simp add: CreateIntrfc_def same_ids_CreateIntrfc_from)

lemma same_ids_DevAddIntrfc: "same_ids s (snd (DevAddIntrfc dev intrfc s))"
  by (auto simp: DevAddIntrfc_def Router_AddIntrfc_def same_ids_def upd_dev_def upd_intrfc_def
      split: devclass.splits)

lemma same_ids_attach:
  "same_ids s s1 \<Longrightarrow>
   same_ids s (case intrfc of None \<Rightarrow> s1
      | Some i \<Rightarrow> upd_dev dev (\<lambda>d. d\<lparr>d_Interfaces := d_Interfaces d @ [i]\<rparr>) s1)"
  by (cases intrfc) (auto simp: same_ids_def upd_dev_def)

lemma same_ids_member:
  "same_ids s s2 \<Longrightarrow> same_ids s (if b then upd_net self f s2 else s2)"
  by (simp add: same_ids_def upd_net_def)

lemma same_ids_IncludeDev: "same_ids s (snd (IncludeDev self dev mediaType chkIntrfc s))"
proof (cases "mediaType = ''wireless'' \<and> \<not> (n_MediaType (nets s self) = ''wireless'')")
  case True
  then show ?thesis by (simp add: IncludeDev_def Let_def same_ids_refl)
next
  case media: False
  show ?thesis
  proof (cases "chkIntrfc \<and> \<not> FacedBy self dev s")
    case True
    obtain r s1 where c: "CreateIntrfc (DevName dev s) (DefaultIntrfcName (DevName dev s) s)
        (DevType dev s) mediaType (n_Name (nets s self)) s = (r, s1)"
      by (cases "CreateIntrfc (DevName dev s) (DefaultIntrfcName (DevName dev s) s)
        (DevType dev s) mediaType (n_Name (nets s self)) s")
    have a: "same_ids s s1"
      using same_ids_CreateIntrfc [of s "DevName dev s" "DefaultIntrfcName (DevName dev s) s"
          "DevType dev s" mediaType "n_Name (nets s self)"] c by simp
    show ?thesis
    proof (cases r)
      case (Inl e)
      then show ?thesis using media True c a by (simp add: IncludeDev_def Let_def same_ids_refl)
    next
      case (Inr i)
      have b: "same_ids s (upd_dev dev (\<lambda>d. d\<lparr>d_Interfaces := d_Interfaces d @ [i]\<rparr>) s1)"
        using same_ids_attach [OF a, where intrfc = "Some i" and dev = dev] by simp
      show ?thesis
        using media True c Inr a b
        by (simp add: IncludeDev_def Let_def same_ids_member same_ids_refl)
    qed
  next
    case False
    then have n: "(if chkIntrfc \<and> \<not> FacedBy self dev s then X else Y) = Y" for X Y :: "(error + ref option) \<times> state"
      by auto
    show ?thesis
      using media by (simp add: IncludeDev_def Let_def n same_ids_member same_ids_refl)
  qed
qed

lemma same_ids_cable_inner: "cable_inner s i1 l = Some s' \<Longrightarrow> same_ids s s'"
  by (induction l) (auto simp: same_ids_def upd_intrfc_def split: if_splits)

lemma same_ids_cable_outer: "cable_outer s l1 l2 = Some s' \<Longrightarrow> same_ids s s'"
  by (induction l1) (auto dest: same_ids_cable_inner split: option.splits)

lemma same_ids_carry_inner: "carry_inner s i1 l = Some s' \<Longrightarrow> same_ids s s'"
  by (induction l) (auto simp: same_ids_def upd_intrfc_def split: if_splits)

lemma same_ids_carry_outer: "carry_outer s l1 l2 = Some s' \<Longrightarrow> same_ids s s'"
  by (induction l1) (auto dest: same_ids_carry_inner split: option.splits)

lemma same_ids_free_intrfc: "same_ids s (snd (free_intrfc dev candidates faces s))"
proof (cases "find (\<lambda>intrfc. i_Faces (intrfcs s intrfc) = faces \<and>
                     i_Cable (intrfcs s intrfc) = None) candidates")
  case None
  obtain r s1 where c: "CreateIntrfc (DevName dev s) (DefaultIntrfcName (DevName dev s) s)
                 (DevType dev s) ''wired'' faces s = (r, s1)"
    by (cases "CreateIntrfc (DevName dev s) (DefaultIntrfcName (DevName dev s) s)
                 (DevType dev s) ''wired'' faces s")
  have a: "same_ids s s1"
    using same_ids_CreateIntrfc [of s "DevName dev s" "DefaultIntrfcName (DevName dev s) s"
        "DevType dev s" "''wired''" faces] c by simp
  show ?thesis
  proof (cases r)
    case (Inl e)
    then show ?thesis using None c a by (simp add: free_intrfc_def)
  next
    case (Inr free)
    have "same_ids s1 (snd (DevAddIntrfc dev free s1))"
      by (rule same_ids_DevAddIntrfc)
    then show ?thesis
      using None c a Inr by (simp add: free_intrfc_def) (rule same_ids_trans)
  qed
next
  case (Some free)
  then show ?thesis by (simp add: free_intrfc_def same_ids_refl)
qed


lemma same_ids_link_tail:
  assumes "same_ids s s2"
  shows "same_ids s (snd (case free_intrfc dev1 intrfcs1 faces s2 of
        (Inl e, s3) \<Rightarrow> (Inl e, s3)
      | (Inr free1, s3) \<Rightarrow>
     (case free_intrfc dev2 intrfcs2 faces s3 of
        (Inl e, s4) \<Rightarrow> (Inl e, s4)
      | (Inr free2, s4) \<Rightarrow>
         (Inr (),
          if cable
          then upd_intrfc free2 (\<lambda>i. i\<lparr>i_Cable := Some free1\<rparr>)
                 (upd_intrfc free1 (\<lambda>i. i\<lparr>i_Cable := Some free2\<rparr>) s4)
          else upd_intrfc free2 (\<lambda>i. i\<lparr>i_Carry := i_Carry i @ [free1]\<rparr>)
                 (upd_intrfc free1 (\<lambda>i. i\<lparr>i_Carry := i_Carry i @ [free2]\<rparr>) s4)))))"
proof -
  obtain r1 s3 where f1: "free_intrfc dev1 intrfcs1 faces s2 = (r1, s3)"
    by (cases "free_intrfc dev1 intrfcs1 faces s2")
  have a3: "same_ids s s3"
    using same_ids_free_intrfc [of s2 dev1 intrfcs1 faces] f1 assms
    by (auto intro: same_ids_trans)
  show ?thesis
  proof (cases r1)
    case (Inl e)
    then show ?thesis using f1 a3 by simp
  next
    case (Inr free1)
    obtain r2 s4 where f2: "free_intrfc dev2 intrfcs2 faces s3 = (r2, s4)"
      by (cases "free_intrfc dev2 intrfcs2 faces s3")
    have a4: "same_ids s s4"
      using same_ids_free_intrfc [of s3 dev2 intrfcs2 faces] f2 a3
      by (auto intro: same_ids_trans)
    show ?thesis
    proof (cases r2)
      case (Inl e)
      then show ?thesis using f1 f2 Inr a4 by simp
    next
      case r2: (Inr free2)
      have "same_ids s (upd_intrfc j g (upd_intrfc i f s4))" for i j f g
        using a4 by (simp add: same_ids_def upd_intrfc_def)
      then show ?thesis using f1 f2 Inr r2 by simp
    qed
  qed
qed

lemma same_ids_ConnectDevs_link:
  "same_ids s (snd (ConnectDevs_link dev1 dev2 cable faces s))"
proof (cases "subscript (netByName s) faces")
  case (Inl e)
  then show ?thesis by (simp add: ConnectDevs_link_def same_ids_refl)
next
  case (Inr net)
  obtain r1 s1 where i1: "IncludeDev net dev1 ''wired'' True s = (r1, s1)"
    by (cases "IncludeDev net dev1 ''wired'' True s")
  have a1: "same_ids s s1"
    using same_ids_IncludeDev [of s net dev1 "''wired''" True] i1 by simp
  show ?thesis
  proof (cases r1)
    case (Inl e)
    then show ?thesis using Inr i1 a1 by (simp add: ConnectDevs_link_def)
  next
    case r1: (Inr v1)
    obtain r2 s2 where i2: "IncludeDev net dev2 ''wired'' True s1 = (r2, s2)"
      by (cases "IncludeDev net dev2 ''wired'' True s1")
    have a2: "same_ids s s2"
      using same_ids_IncludeDev [of s1 net dev2 "''wired''" True] i2 a1
      by (auto intro: same_ids_trans)
    show ?thesis
    proof (cases r2)
      case (Inl e)
      then show ?thesis using Inr i1 r1 i2 a2 by (simp add: ConnectDevs_link_def)
    next
      case r2: (Inr v2)
      let ?intrfcs2 = "filter (\<lambda>intrfc. i_Faces (intrfcs s2 intrfc) = faces \<and>
                                \<not> i_MediaType (intrfcs s2 intrfc) = ''wireless'')
                       (DevInterfaces dev2 s2)"
      let ?intrfcs1 = "filter (\<lambda>intrfc. i_Faces (intrfcs s2 intrfc) = faces \<and>
                                \<not> i_MediaType (intrfcs s2 intrfc) = ''wireless'')
                       (DevInterfaces dev1 s2)"
      let ?found = "if cable then cable_outer s2 ?intrfcs1 ?intrfcs2
               else carry_outer s2 ?intrfcs1 ?intrfcs2"
      have unfolded: "ConnectDevs_link dev1 dev2 cable faces s =
        (case ?found of
           Some s3 \<Rightarrow> (Inr (), s3)
         | None \<Rightarrow>
     (case free_intrfc dev1 ?intrfcs1 faces s2 of
        (Inl e, s3) \<Rightarrow> (Inl e, s3)
      | (Inr free1, s3) \<Rightarrow>
     (case free_intrfc dev2 ?intrfcs2 faces s3 of
        (Inl e, s4) \<Rightarrow> (Inl e, s4)
      | (Inr free2, s4) \<Rightarrow>
         (Inr (),
          if cable
          then upd_intrfc free2 (\<lambda>i. i\<lparr>i_Cable := Some free1\<rparr>)
                 (upd_intrfc free1 (\<lambda>i. i\<lparr>i_Cable := Some free2\<rparr>) s4)
          else upd_intrfc free2 (\<lambda>i. i\<lparr>i_Carry := i_Carry i @ [free1]\<rparr>)
                 (upd_intrfc free1 (\<lambda>i. i\<lparr>i_Carry := i_Carry i @ [free2]\<rparr>) s4)))))"
        using Inr i1 r1 i2 r2
        by (simp add: ConnectDevs_link_def Let_def)
      show ?thesis
      proof (cases ?found)
        case None
        then show ?thesis
          unfolding unfolded using same_ids_link_tail [OF a2] by simp
      next
        case (Some s3)
        then have "same_ids s2 s3"
          by (auto dest: same_ids_cable_outer same_ids_carry_outer split: if_splits)
        then show ?thesis
          unfolding unfolded using Some a2 by (auto intro: same_ids_trans)
      qed
    qed
  qed
qed

lemma isConnected_markConnected: "isConnected id1 id2 (markConnected id1 id2 s)"
  by (auto simp: markConnected_def isConnected_def append_peer_def split: option.splits)

lemma isConnected_same_ids:
  "same_ids s s' \<Longrightarrow>
   isConnected (DevID dev1 s') (DevID dev2 s') s' = isConnected (DevID dev1 s) (DevID dev2 s) s"
  by (simp add: same_ids_def isConnected_def DevID_def)

lemma DevID_markConnected: "DevID dev (markConnected id1 id2 s) = DevID dev s"
  by (simp add: markConnected_def DevID_def)

lemma ConnectDevs_marks:
  "isConnected (DevID dev1 (snd (ConnectDevs dev1 dev2 cable faces s)))
     (DevID dev2 (snd (ConnectDevs dev1 dev2 cable faces s)))
     (snd (ConnectDevs dev1 dev2 cable faces s))"
proof (cases "isConnected (DevID dev1 s) (DevID dev2 s) s")
  case True
  then show ?thesis by (simp add: ConnectDevs_def)
next
  case False
  define m where "m = markConnected (DevID dev1 s) (DevID dev2 s) s"
  have s': "snd (ConnectDevs dev1 dev2 cable faces s) = snd (ConnectDevs_link dev1 dev2 cable faces m)"
    using False by (simp add: ConnectDevs_def m_def)
  have c: "isConnected (DevID dev1 m) (DevID dev2 m) m"
    by (simp add: m_def DevID_markConnected isConnected_markConnected)
  have f: "same_ids m (snd (ConnectDevs_link dev1 dev2 cable faces m))"
    by (rule same_ids_ConnectDevs_link)
  show ?thesis
    unfolding s' using isConnected_same_ids [OF f, of dev1 dev2] c by simp
qed

text \<open>
  C1. Calling \<open>ConnectDevs\<close> a second time with the same arguments changes nothing:
  whatever the first call did (returned, or raised after recording the pair), the state it
  leaves marks the pair connected in \<open>devConnected\<close>, so the second call returns at once
  with the state, and with it every interface, cable and carry list, as the first call
  left it.
\<close>

theorem ConnectDevs_idempotent:
  "isConnected (DevID dev1 (snd (ConnectDevs dev1 dev2 cable faces s)))
     (DevID dev2 (snd (ConnectDevs dev1 dev2 cable faces s)))
     (snd (ConnectDevs dev1 dev2 cable faces s)) \<and>
   ConnectDevs dev1 dev2 cable faces (snd (ConnectDevs dev1 dev2 cable faces s)) =
     (Inr (), snd (ConnectDevs dev1 dev2 cable faces s))"
  using ConnectDevs_marks [of dev1 dev2 cable faces s]
  by (simp add: ConnectDevs_def [of dev1 dev2 cable faces "snd (ConnectDevs dev1 dev2 cable faces s)"])

subsection \<open>The code at the inputs where it departs from the specification\<close>

lemmas eval_defs =
  ConnectDevs_def ConnectDevs_link_def IncludeDev_def CreateIntrfc_def CreateIntrfc_from_def
  read_local_def subscript_def isConnected_def markConnected_def append_peer_def DevID_def
  DevName_def DevType_def DevInterfaces_def FacedBy_def endptPresent_def routerPresent_def
  switchPresent_def upd_net_def upd_dev_def upd_intrfc_def empty_state_def DevFrame_init_def
  NetworkFrame_init_def IntrfcFrame_init_def carryContained_def free_intrfc_def
  DefaultIntrfcName_def Let_def

text \<open>
  C2. In carry mode, with \<open>i1\<close> in the \<open>Carry\<close> list of \<open>i2\<close> and \<open>i2\<close> not in
  that of \<open>i1\<close>, the claim expects \<open>ConnectDevs\<close> to add \<open>i2\<close> to the list of
  \<open>i1\<close> and to leave the list of \<open>i2\<close> without a duplicate. On \<open>ex_carry\<close> the
  call returns normally, the list of \<open>i1\<close> is still empty and the list of \<open>i2\<close>
  holds \<open>i1\<close> twice: the append goes to the side that already carried.
\<close>

theorem ConnectDevs_carry_appends_to_wrong_side:
  "fst (ConnectDevs 1 2 False ''netA'' ex_carry) = Inr () \<and>
   i_Carry (intrfcs ex_carry 1) = [] \<and> i_Carry (intrfcs ex_carry 2) = [1] \<and>
   carryContained 1 2 ex_carry \<and> \<not> carryContained 2 1 ex_carry \<and>
   i_Carry (intrfcs (snd (ConnectDevs 1 2 False ''netA'' ex_carry)) 1) = [] \<and>
   i_Carry (intrfcs (snd (ConnectDevs 1 2 False ''netA'' ex_carry)) 2) = [1, 1]"
  by (simp add: eval_defs ex_fresh_def ex_carry_def)

text \<open>
  C3. For the two endpoints without interfaces of \<open>ex_fresh\<close> and the wired network
  \<open>netA\<close>, the claim expects one interface on each endpoint after the first call of
  \<open>ConnectDevs\<close> in cable mode. The first call raises \<open>UnboundLocalError\<close>, from
  \<open>CreateIntrfc\<close> under \<open>IncludeDev\<close>, and leaves both endpoints without any
  interface; the second call returns at once and both endpoints still have none.
\<close>

theorem ConnectDevs_fresh_endpoints_raises:
  "fst (ConnectDevs 1 2 True ''netA'' ex_fresh) = Inl UnboundLocalError \<and>
   d_Interfaces (devs (snd (ConnectDevs 1 2 True ''netA'' ex_fresh)) 1) = [] \<and>
   d_Interfaces (devs (snd (ConnectDevs 1 2 True ''netA'' ex_fresh)) 2) = [] \<and>
   fst (ConnectDevs 1 2 True ''netA'' (snd (ConnectDevs 1 2 True ''netA'' ex_fresh))) = Inr () \<and>
   d_Interfaces (devs (snd (ConnectDevs 1 2 True ''netA''
      (snd (ConnectDevs 1 2 True ''netA'' ex_fresh)))) 1) = [] \<and>
   d_Interfaces (devs (snd (ConnectDevs 1 2 True ''netA''
      (snd (ConnectDevs 1 2 True ''netA'' ex_fresh)))) 2) = []"
  by (simp add: eval_defs ex_fresh_def)

text \<open>
  C5. The claim expects \<open>CreateIntrfc\<close> to return the new interface, after appending
  the router to the network's \<open>Routers\<close> when the device type is \<open>Router\<close>. Every
  call raises \<open>UnboundLocalError\<close> at \<open>numberOfIntrfcs += 1\<close> and leaves the state as
  it was; so for the endpoint \<open>h1\<close>, and for the router \<open>r1\<close>, which is not appended
  to the \<open>Routers\<close> of \<open>netA\<close>. With the counter bound, the call for a device that is
  not a router still raises \<open>UnboundLocalError\<close>, at the read of \<open>net\<close>.
\<close>

theorem CreateIntrfc_never_returns:
  "CreateIntrfc device name devType mediaType faces s = (Inl UnboundLocalError, s) \<and>
   CreateIntrfc ''h1'' ''i1'' ''Endpt'' ''wired'' ''netA'' ex_fresh =
     (Inl UnboundLocalError, ex_fresh) \<and>
   CreateIntrfc_from (Some 0) ''h1'' ''i1'' ''Endpt'' ''wired'' ''netA'' ex_fresh =
     (Inl UnboundLocalError, ex_fresh) \<and>
   CreateIntrfc ''r1'' ''i6'' ''Router'' ''wired'' ''netA'' ex_switch =
     (Inl UnboundLocalError, ex_switch) \<and>
   n_Routers (nets ex_switch 1) = []"
  by (simp add: CreateIntrfc_def CreateIntrfc_from_def read_local_def ex_switch_def
      empty_state_def NetworkFrame_init_def)

text \<open>
  C6. The claim expects \<open>AddSwitch\<close> to append a switch that faces the network and is
  not in \<open>Switches\<close> by name, and to return the error for one that does not face it. On
  \<open>ex_switch\<close>, where \<open>Switches\<close> holds \<open>s1\<close>: \<open>s2\<close> faces \<open>netA\<close> and is not
  present, and the call returns \<open>None\<close> without appending it; \<open>s3\<close> does not face
  \<open>netA\<close> and is not present, and the call returns \<open>None\<close>, no error.
\<close>

theorem AddSwitch_nonempty_list_does_nothing:
  "AddSwitch 1 4 ex_switch = (None, ex_switch) \<and> FacedBy 1 4 ex_switch \<and>
   \<not> switchPresent (n_Switches (nets ex_switch 1)) 4 ex_switch \<and>
   n_Switches (nets ex_switch 1) = [3] \<and>
   AddSwitch 1 5 ex_switch = (None, ex_switch) \<and> \<not> FacedBy 1 5 ex_switch \<and>
   \<not> switchPresent (n_Switches (nets ex_switch 1)) 5 ex_switch"
  by (simp add: AddSwitch_def FacedBy_def DevInterfaces_def switchPresent_def ex_switch_def
      empty_state_def DevFrame_init_def NetworkFrame_init_def IntrfcFrame_init_def)

text \<open>
  C7. The claim expects \<open>IncludeDev\<close> with media type \<open>wired\<close> to succeed. For the
  switch \<open>s2\<close>, which faces \<open>netA\<close>, the call raises \<open>TypeError\<close>, with or without
  \<open>chkIntrfc\<close>; for the endpoint \<open>h1\<close>, which has no interface, the call with
  \<open>chkIntrfc\<close> raises \<open>UnboundLocalError\<close>.
\<close>

theorem IncludeDev_wired_raises:
  "IncludeDev 1 4 ''wired'' False ex_switch = (Inl TypeError, ex_switch) \<and>
   IncludeDev 1 4 ''wired'' True ex_switch = (Inl TypeError, ex_switch) \<and>
   IncludeDev 1 1 ''wired'' True ex_fresh = (Inl UnboundLocalError, ex_fresh)"
  by (simp add: eval_defs ex_fresh_def ex_switch_def)

text \<open>
  C8. The claim expects the \<open>Carry\<close> field of the descriptor to hold the names of the
  carried interfaces. For \<open>i2\<close> of \<open>ex_carry\<close>, whose \<open>Carry\<close> list holds \<open>i1\<close>, the
  descriptor's list holds the frame object itself, not the string \<open>i1\<close>.
\<close>

theorem Transform_Carry_holds_frames:
  "ds_Carry (IntrfcFrame_Transform 2 ex_carry) = [FrameRef 1] \<and>
   i_Name (intrfcs ex_carry 1) = ''i1'' \<and>
   ds_Carry (IntrfcFrame_Transform 2 ex_carry) \<noteq> [Str ''i1'']"
  by (simp add: IntrfcFrame_Transform_def ex_carry_def ex_fresh_def empty_state_def
      IntrfcFrame_init_def)

subsection \<open>Consolidate\<close>

text \<open>
  Each of \<open>addRouter\<close>, \<open>addEndpt\<close>, \<open>addSwitch\<close> appends to its own list when no
  stored frame has the name, so the loop over the networks folds each kind of membership
  list, concatenated over the networks, into the list of its kind.
\<close>

lemma stored_iff: "stored s frames dev \<longleftrightarrow> d_Name (devs s dev) \<in> (\<lambda>d. d_Name (devs s d)) ` set frames"
  unfolding stored_def list_ex_iff image_iff by metis

lemma fold_add_union:
  "fold (\<lambda>x xs. if nm x \<in> nm ` set xs then xs else xs @ [x]) ys acc =
     acc @ union_by_name nm (filter (\<lambda>y. nm y \<notin> nm ` set acc) ys)"
proof (induction ys arbitrary: acc)
  case Nil
  then show ?case by simp
next
  case (Cons y ys)
  show ?case
  proof (cases "nm y \<in> nm ` set acc")
    case True
    then show ?thesis using Cons.IH [of acc] by simp
  next
    case False
    have "filter (\<lambda>z. nm z \<notin> nm ` set (acc @ [y])) ys =
          filter (\<lambda>z. nm z \<noteq> nm y) (filter (\<lambda>z. nm z \<notin> nm ` set acc) ys)"
      by (induction ys) auto
    then show ?thesis using False Cons.IH [of "acc @ [y]"] by simp
  qed
qed

lemma set_union_by_name: "nm ` set (union_by_name nm xs) = nm ` set xs"
proof (induction nm xs rule: union_by_name.induct)
  case (1 nm)
  then show ?case by simp
next
  case (2 nm x xs)
  then show ?case by auto
qed

lemma union_by_name_subset: "set (union_by_name nm xs) \<subseteq> set xs"
  by (induction nm xs rule: union_by_name.induct) auto

lemma distinct_union_by_name: "distinct (map nm (union_by_name nm xs))"
proof (induction nm xs rule: union_by_name.induct)
  case (1 nm)
  then show ?case by simp
next
  case (2 nm x xs)
  have "nm x \<notin> nm ` set (union_by_name nm (filter (\<lambda>y. nm y \<noteq> nm x) xs))"
    using union_by_name_subset [of nm "filter (\<lambda>y. nm y \<noteq> nm x) xs"] by auto
  then show ?case using 2 by simp
qed


lemma t_addRouter:
  "t_Routers (addRouter s x t) =
     (if d_Name (devs s x) \<in> (\<lambda>d. d_Name (devs s d)) ` set (t_Routers t) then t_Routers t
      else t_Routers t @ [x])"
  "t_Endpts (addRouter s x t) = t_Endpts t" "t_Switches (addRouter s x t) = t_Switches t"
  "t_Networks (addRouter s x t) = t_Networks t" "t_Name (addRouter s x t) = t_Name t"
  by (simp_all add: addRouter_def stored_iff)

lemma t_addEndpt:
  "t_Endpts (addEndpt s x t) =
     (if d_Name (devs s x) \<in> (\<lambda>d. d_Name (devs s d)) ` set (t_Endpts t) then t_Endpts t
      else t_Endpts t @ [x])"
  "t_Routers (addEndpt s x t) = t_Routers t" "t_Switches (addEndpt s x t) = t_Switches t"
  "t_Networks (addEndpt s x t) = t_Networks t" "t_Name (addEndpt s x t) = t_Name t"
  by (simp_all add: addEndpt_def stored_iff)

lemma t_addSwitch:
  "t_Switches (addSwitch s x t) =
     (if d_Name (devs s x) \<in> (\<lambda>d. d_Name (devs s d)) ` set (t_Switches t) then t_Switches t
      else t_Switches t @ [x])"
  "t_Routers (addSwitch s x t) = t_Routers t" "t_Endpts (addSwitch s x t) = t_Endpts t"
  "t_Networks (addSwitch s x t) = t_Networks t" "t_Name (addSwitch s x t) = t_Name t"
  by (simp_all add: addSwitch_def stored_iff)

text \<open>A fold of one of the three operations acts on its own list only.\<close>

lemma fold_addRouter:
  "t_Routers (fold (addRouter s) xs t) =
     fold (\<lambda>x ys. if d_Name (devs s x) \<in> (\<lambda>d. d_Name (devs s d)) ` set ys then ys else ys @ [x])
       xs (t_Routers t) \<and>
   t_Endpts (fold (addRouter s) xs t) = t_Endpts t \<and>
   t_Switches (fold (addRouter s) xs t) = t_Switches t \<and>
   t_Networks (fold (addRouter s) xs t) = t_Networks t \<and>
   t_Name (fold (addRouter s) xs t) = t_Name t"
  by (induction xs arbitrary: t) (simp_all add: t_addRouter)

lemma fold_addEndpt:
  "t_Endpts (fold (addEndpt s) xs t) =
     fold (\<lambda>x ys. if d_Name (devs s x) \<in> (\<lambda>d. d_Name (devs s d)) ` set ys then ys else ys @ [x])
       xs (t_Endpts t) \<and>
   t_Routers (fold (addEndpt s) xs t) = t_Routers t \<and>
   t_Switches (fold (addEndpt s) xs t) = t_Switches t \<and>
   t_Networks (fold (addEndpt s) xs t) = t_Networks t \<and>
   t_Name (fold (addEndpt s) xs t) = t_Name t"
  by (induction xs arbitrary: t) (simp_all add: t_addEndpt)

lemma fold_addSwitch:
  "t_Switches (fold (addSwitch s) xs t) =
     fold (\<lambda>x ys. if d_Name (devs s x) \<in> (\<lambda>d. d_Name (devs s d)) ` set ys then ys else ys @ [x])
       xs (t_Switches t) \<and>
   t_Routers (fold (addSwitch s) xs t) = t_Routers t \<and>
   t_Endpts (fold (addSwitch s) xs t) = t_Endpts t \<and>
   t_Networks (fold (addSwitch s) xs t) = t_Networks t \<and>
   t_Name (fold (addSwitch s) xs t) = t_Name t"
  by (induction xs arbitrary: t) (simp_all add: t_addSwitch)

lemma fold_gather:
  "t_Routers (fold (gather s) ns t) =
     fold (\<lambda>x ys. if d_Name (devs s x) \<in> (\<lambda>d. d_Name (devs s d)) ` set ys then ys else ys @ [x])
       (concat (map (\<lambda>n. n_Routers (nets s n)) ns)) (t_Routers t) \<and>
   t_Endpts (fold (gather s) ns t) =
     fold (\<lambda>x ys. if d_Name (devs s x) \<in> (\<lambda>d. d_Name (devs s d)) ` set ys then ys else ys @ [x])
       (concat (map (\<lambda>n. n_Endpts (nets s n)) ns)) (t_Endpts t) \<and>
   t_Switches (fold (gather s) ns t) =
     fold (\<lambda>x ys. if d_Name (devs s x) \<in> (\<lambda>d. d_Name (devs s d)) ` set ys then ys else ys @ [x])
       (concat (map (\<lambda>n. n_Switches (nets s n)) ns)) (t_Switches t) \<and>
   t_Networks (fold (gather s) ns t) = t_Networks t \<and>
   t_Name (fold (gather s) ns t) = t_Name t"
proof (induction ns arbitrary: t)
  case Nil
  then show ?case by simp
next
  case (Cons n ns)
  show ?case
    using Cons.IH [of "gather s n t"]
    by (simp add: gather_def fold_addRouter fold_addEndpt fold_addSwitch)
qed

lemma Consolidate_lists:
  assumes "t_Networks t \<noteq> []"
  shows "fst (Consolidate s t) = None"
    and "t_Routers (snd (Consolidate s t)) =
      union_by_name (\<lambda>d. d_Name (devs s d)) (concat (map (\<lambda>n. n_Routers (nets s n)) (t_Networks t)))"
    and "t_Endpts (snd (Consolidate s t)) =
      union_by_name (\<lambda>d. d_Name (devs s d)) (concat (map (\<lambda>n. n_Endpts (nets s n)) (t_Networks t)))"
    and "t_Switches (snd (Consolidate s t)) =
      union_by_name (\<lambda>d. d_Name (devs s d)) (concat (map (\<lambda>n. n_Switches (nets s n)) (t_Networks t)))"
    and "t_Networks (snd (Consolidate s t)) = t_Networks t"
    and "t_Name (snd (Consolidate s t)) = t_Name t"
  using assms by (simp_all add: Consolidate_def fold_gather fold_add_union)

text \<open>
  C9. For a topology without networks \<open>Consolidate\<close> returns the error string (the
  specification's \<open>EmptyTopologyError\<close>) and the topology as it was, so with its
  \<open>Endpts\<close>, \<open>Routers\<close> and \<open>Switches\<close> untouched. For a topology with a network it
  returns no error, and each of the three lists is rebuilt, whatever it held before, as
  the union by name of the networks' membership lists of that kind: the names are distinct,
  they are the names that occur in the membership lists, and every frame comes from them.
\<close>

theorem Consolidate_spec:
  "(t_Networks t = [] \<longrightarrow> Consolidate s t = (Some EmptyTopologyError, t)) \<and>
   (t_Networks t \<noteq> [] \<longrightarrow>
      fst (Consolidate s t) = None \<and>
      t_Name (snd (Consolidate s t)) = t_Name t \<and>
      t_Networks (snd (Consolidate s t)) = t_Networks t \<and>
      t_Routers (snd (Consolidate s t)) =
        union_by_name (\<lambda>d. d_Name (devs s d))
          (concat (map (\<lambda>n. n_Routers (nets s n)) (t_Networks t))) \<and>
      t_Endpts (snd (Consolidate s t)) =
        union_by_name (\<lambda>d. d_Name (devs s d))
          (concat (map (\<lambda>n. n_Endpts (nets s n)) (t_Networks t))) \<and>
      t_Switches (snd (Consolidate s t)) =
        union_by_name (\<lambda>d. d_Name (devs s d))
          (concat (map (\<lambda>n. n_Switches (nets s n)) (t_Networks t)))) \<and>
   distinct (map nm (union_by_name nm xs)) \<and>
   nm ` set (union_by_name nm xs) = nm ` set xs \<and>
   set (union_by_name nm xs) \<subseteq> set xs"
  using Consolidate_lists [of t s]
  by (simp add: Consolidate_def distinct_union_by_name set_union_by_name union_by_name_subset)

theorem Consolidate_spec_witness:
  "t_Networks ex_topo_empty = [] \<and>
   Consolidate ex_nets ex_topo_empty = (Some EmptyTopologyError, ex_topo_empty) \<and>
   t_Networks ex_topo \<noteq> [] \<and>
   fst (Consolidate ex_nets ex_topo) = None \<and>
   t_Routers (snd (Consolidate ex_nets ex_topo)) = [6] \<and>
   t_Endpts (snd (Consolidate ex_nets ex_topo)) = [1] \<and>
   t_Switches (snd (Consolidate ex_nets ex_topo)) = [3, 4]"
proof -
  have e: "t_Networks ex_topo_empty = []" by (simp add: ex_topo_empty_def)
  have n: "t_Networks ex_topo \<noteq> []" by (simp add: ex_topo_def)
  have r: "union_by_name (\<lambda>d. d_Name (devs ex_nets d))
          (concat (map (\<lambda>n. n_Routers (nets ex_nets n)) (t_Networks ex_topo))) = [6]"
    by (simp add: ex_topo_def ex_nets_def ex_switch_def empty_state_def NetworkFrame_init_def
        DevFrame_init_def)
  have p: "union_by_name (\<lambda>d. d_Name (devs ex_nets d))
          (concat (map (\<lambda>n. n_Endpts (nets ex_nets n)) (t_Networks ex_topo))) = [1]"
    by (simp add: ex_topo_def ex_nets_def ex_switch_def empty_state_def NetworkFrame_init_def
        DevFrame_init_def)
  have w: "union_by_name (\<lambda>d. d_Name (devs ex_nets d))
          (concat (map (\<lambda>n. n_Switches (nets ex_nets n)) (t_Networks ex_topo))) = [3, 4]"
    by (simp add: ex_topo_def ex_nets_def ex_switch_def empty_state_def NetworkFrame_init_def
        DevFrame_init_def)
  show ?thesis
    using Consolidate_spec [of ex_topo_empty ex_nets "\<lambda>d. []" "[]"]
      Consolidate_spec [of ex_topo ex_nets "\<lambda>d. []" "[]"] e n r p w
    by simp
qed

subsection \<open>The constructors and the registries\<close>

lemma instantiate_values:
  "instantiate EndptFrameClass_defines = Inl TypeError"
  "instantiate RouterFrameClass_defines = Inr ()"
  "instantiate SwitchFrameClass_defines = Inl TypeError"
  "instantiate NetworkFrameClass_defines = Inl TypeError"
  by (simp_all add: instantiate_def NetDevice_abstract_def EndptFrameClass_defines_def
      RouterFrameClass_defines_def SwitchFrameClass_defines_def NetworkFrameClass_defines_def)

lemmas create_defs =
  CreateEndpt_def CreateRouter_def CreateSwitch_def CreateNetwork_def
  CreateEndpt_from_def CreateRouter_from_def CreateSwitch_from_def read_local_def

text \<open>
  C4, as stated, fails: the router name \<open>r1\<close> is registered in \<open>ex_switch\<close>, and
  \<open>CreateRouter\<close> with that name does not fail with \<open>DuplicateNameError\<close>. It raises
  \<open>UnboundLocalError\<close>, as it does for every name; and with the counter bound it returns
  a new router and stores it under \<open>r1\<close> in place of the router registered before.
\<close>

theorem CreateRouter_duplicate_counterexample:
  "objTypeByName ex_switch ''r1'' = Some ''Router'' \<and>
   devByName ex_switch ''r1'' = Some 6 \<and>
   fst (CreateRouter ''r1'' ''model'' ex_switch) = Inl UnboundLocalError \<and>
   fst (CreateRouter ''r1'' ''model'' ex_switch) \<noteq> Inl DuplicateNameError \<and>
   fst (CreateRouter_from (Some 0) ''r1'' ''model'' ex_switch) = Inr 7 \<and>
   devByName (snd (CreateRouter_from (Some 0) ''r1'' ''model'' ex_switch)) ''r1'' = Some 7 \<and>
   rtrByName (snd (CreateRouter_from (Some 0) ''r1'' ''model'' ex_switch)) ''r1'' = Some 7"
  by (simp add: create_defs instantiate_values ex_switch_def empty_state_def Let_def)

text \<open>
  C4, amended. No constructor tests whether the name is registered. \<open>CreateEndpt\<close>,
  \<open>CreateRouter\<close>, \<open>CreateSwitch\<close> and \<open>CreateNetwork\<close> never fail with
  \<open>DuplicateNameError\<close>, and what they return does not depend on what the four registries
  hold; the registration of \<open>CreateRouter\<close> stores the new router under the name in
  \<open>objTypeByName\<close>, \<open>devByName\<close> and \<open>rtrByName\<close>, whatever was stored there. A
  registry is a dictionary, so it holds one object under a name at any time.
\<close>

theorem Create_no_duplicate_check:
  "fst (CreateEndpt name etype model cores s) \<noteq> Inl DuplicateNameError \<and>
   fst (CreateRouter name model s) \<noteq> Inl DuplicateNameError \<and>
   fst (CreateSwitch name model s) \<noteq> Inl DuplicateNameError \<and>
   fst (CreateNetwork name scale media s) \<noteq> Inl DuplicateNameError \<and>
   fst (CreateEndpt_from l name etype model cores s) \<noteq> Inl DuplicateNameError \<and>
   fst (CreateRouter_from l name model s) \<noteq> Inl DuplicateNameError \<and>
   fst (CreateSwitch_from l name model s) \<noteq> Inl DuplicateNameError \<and>
   fst (CreateEndpt_from l name etype model cores
          (s\<lparr>objTypeByName := ot, devByName := dn, netByName := nn, rtrByName := rn\<rparr>)) =
     fst (CreateEndpt_from l name etype model cores s) \<and>
   fst (CreateRouter_from l name model
          (s\<lparr>objTypeByName := ot, devByName := dn, netByName := nn, rtrByName := rn\<rparr>)) =
     fst (CreateRouter_from l name model s) \<and>
   fst (CreateSwitch_from l name model
          (s\<lparr>objTypeByName := ot, devByName := dn, netByName := nn, rtrByName := rn\<rparr>)) =
     fst (CreateSwitch_from l name model s) \<and>
   fst (CreateNetwork name scale media
          (s\<lparr>objTypeByName := ot, devByName := dn, netByName := nn, rtrByName := rn\<rparr>)) =
     fst (CreateNetwork name scale media s) \<and>
   devByName (snd (CreateRouter_from (Some k) name model s))
       (if length name = 0 then DefaultRouterName s else name) = Some (next_ref s) \<and>
   rtrByName (snd (CreateRouter_from (Some k) name model s))
       (if length name = 0 then DefaultRouterName s else name) = Some (next_ref s) \<and>
   objTypeByName (snd (CreateRouter_from (Some k) name model s))
       (if length name = 0 then DefaultRouterName s else name) = Some ''Router''"
  by (cases l) (simp_all add: create_defs instantiate_values Let_def)

subsection \<open>The parts of the admission rules that hold\<close>

text \<open>
  The wireless rejection of \<open>IncludeDev\<close>: on a network whose media type is not
  \<open>wireless\<close>, the call with media type \<open>wireless\<close> returns the error string and leaves
  the whole state as it was, for every device and either value of \<open>chkIntrfc\<close>.
\<close>

theorem IncludeDev_wireless_rejected:
  "n_MediaType (nets s self) \<noteq> ''wireless'' \<Longrightarrow>
   IncludeDev self dev ''wireless'' chkIntrfc s = (Inr (Some MediaMismatchError), s)"
  by (simp add: IncludeDev_def Let_def)

theorem IncludeDev_wireless_rejected_witness:
  "n_MediaType (nets ex_fresh 1) \<noteq> ''wireless'' \<and>
   IncludeDev 1 1 ''wireless'' True ex_fresh = (Inr (Some MediaMismatchError), ex_fresh)"
proof -
  have m: "n_MediaType (nets ex_fresh 1) \<noteq> ''wireless''"
    by (simp add: ex_fresh_def empty_state_def NetworkFrame_init_def)
  show ?thesis
    using IncludeDev_wireless_rejected [OF m, of 1 True] m by simp
qed

text \<open>
  \<open>AddRouter\<close>: a router that is not in \<open>Routers\<close> by name is refused with the error
  string, the state unchanged, when it has no interface facing the network, and is appended
  when it has one; a router that is present by name is not appended again.
\<close>

theorem AddRouter_spec:
  "(\<not> routerPresent (n_Routers (nets s self)) rtrf s \<and> \<not> FacedBy self rtrf s \<longrightarrow>
      AddRouter self rtrf s =
        (Some (PrecedenceViolationError ''router'' (d_Name (devs s rtrf)) (n_Name (nets s self))),
         s)) \<and>
   (\<not> routerPresent (n_Routers (nets s self)) rtrf s \<and> FacedBy self rtrf s \<longrightarrow>
      fst (AddRouter self rtrf s) = None \<and>
      n_Routers (nets (snd (AddRouter self rtrf s)) self) = n_Routers (nets s self) @ [rtrf]) \<and>
   (routerPresent (n_Routers (nets s self)) rtrf s \<longrightarrow> AddRouter self rtrf s = (None, s))"
  by (simp add: AddRouter_def routerPresent_def upd_net_def Let_def)

theorem AddRouter_spec_witness:
  "\<not> routerPresent (n_Routers (nets ex_router 1)) 6 ex_router \<and> \<not> FacedBy 1 6 ex_router \<and>
   AddRouter 1 6 ex_router =
     (Some (PrecedenceViolationError ''router'' ''r1'' ''netA''), ex_router) \<and>
   \<not> routerPresent (n_Routers (nets ex_router 1)) 7 ex_router \<and> FacedBy 1 7 ex_router \<and>
   fst (AddRouter 1 7 ex_router) = None \<and>
   n_Routers (nets (snd (AddRouter 1 7 ex_router)) 1) = [7] \<and>
   routerPresent (n_Routers (nets ex_nets 1)) 6 ex_nets \<and>
   AddRouter 1 6 ex_nets = (None, ex_nets)"
proof -
  note ex = ex_router_def ex_nets_def ex_switch_def empty_state_def DevFrame_init_def
    NetworkFrame_init_def IntrfcFrame_init_def routerPresent_def FacedBy_def DevInterfaces_def
  have a: "\<not> routerPresent (n_Routers (nets ex_router 1)) 6 ex_router \<and> \<not> FacedBy 1 6 ex_router"
    by (simp add: ex)
  have b: "\<not> routerPresent (n_Routers (nets ex_router 1)) 7 ex_router \<and> FacedBy 1 7 ex_router"
    by (simp add: ex)
  have c: "routerPresent (n_Routers (nets ex_nets 1)) 6 ex_nets"
    by (simp add: ex)
  have n: "d_Name (devs ex_router 6) = ''r1''" "n_Name (nets ex_router 1) = ''netA''"
    "n_Routers (nets ex_router 1) = []"
    by (simp_all add: ex)
  show ?thesis
    using AddRouter_spec [of ex_router 1 6] AddRouter_spec [of ex_router 1 7]
      AddRouter_spec [of ex_nets 1 6] a b c n
    by simp
qed

subsection \<open>The cable search takes the first reusable pair\<close>

lemma cable_inner_find:
  "cable_inner s intrfc1 intrfcs2 =
     (case find (\<lambda>intrfc2.
              (i_Cable (intrfcs s intrfc1) = None \<or> i_Cable (intrfcs s intrfc1) = Some intrfc2) \<and>
              (i_Cable (intrfcs s intrfc2) = None \<or> i_Cable (intrfcs s intrfc2) = Some intrfc1))
            intrfcs2 of
        None \<Rightarrow> None
      | Some intrfc2 \<Rightarrow>
          Some (upd_intrfc intrfc2 (\<lambda>i. i\<lparr>i_Cable := Some intrfc1\<rparr>)
                  (upd_intrfc intrfc1 (\<lambda>i. i\<lparr>i_Cable := Some intrfc2\<rparr>) s)))"
  by (induction intrfcs2) auto

text \<open>
  In cable mode the nested loops cable the first pair in pool order (the outer loop over
  the first device's candidates, the inner loop over the second's) in which each
  interface's \<open>Cable\<close> is unset or already the other interface, and fall through when
  there is no such pair.
\<close>

theorem cable_search_first_match:
  "cable_outer s intrfcs1 intrfcs2 =
     (case find (\<lambda>intrfc1. cable_inner s intrfc1 intrfcs2 \<noteq> None) intrfcs1 of
        None \<Rightarrow> None
      | Some intrfc1 \<Rightarrow> cable_inner s intrfc1 intrfcs2) \<and>
   cable_inner s intrfc1 intrfcs2 =
     (case find (\<lambda>intrfc2.
              (i_Cable (intrfcs s intrfc1) = None \<or> i_Cable (intrfcs s intrfc1) = Some intrfc2) \<and>
              (i_Cable (intrfcs s intrfc2) = None \<or> i_Cable (intrfcs s intrfc2) = Some intrfc1))
            intrfcs2 of
        None \<Rightarrow> None
      | Some intrfc2 \<Rightarrow>
          Some (upd_intrfc intrfc2 (\<lambda>i. i\<lparr>i_Cable := Some intrfc1\<rparr>)
                  (upd_intrfc intrfc1 (\<lambda>i. i\<lparr>i_Cable := Some intrfc2\<rparr>) s)))"
proof -
  have "cable_outer s intrfcs1 intrfcs2 =
     (case find (\<lambda>intrfc1. cable_inner s intrfc1 intrfcs2 \<noteq> None) intrfcs1 of
        None \<Rightarrow> None
      | Some intrfc1 \<Rightarrow> cable_inner s intrfc1 intrfcs2)"
    by (induction intrfcs1) (auto split: option.splits)
  then show ?thesis by (simp add: cable_inner_find)
qed

end
